theory Spec2Isabelle
  imports Complex_Main
begin

section \<open>Subscription billing of the Vale o Vinho backend\<close>

text \<open>
  The development embeds \<^verbatim>\<open>server/middleware/subscription.ts\<close> (the entitlement
  query) and \<^verbatim>\<open>server/routers/subscription.ts\<close> (the Stripe webhook handlers and
  the user commands) over the tables of the subscription migration
  (\<^verbatim>\<open>subscription_plans\<close>, \<^verbatim>\<open>subscriptions\<close>, \<^verbatim>\<open>payment_history\<close>).

  Conventions of the embedding:
  \<^item> a table is the list of its rows in storage order; a \<^verbatim>\<open>TIMESTAMP\<close> column holds
    unix seconds, a nullable column is an \<open>option\<close>;
  \<^item> the database handle is \<open>any\<close> in the source, so each \<^verbatim>\<open>db.query\<close> call
    either runs its SQL statement on the tables or rejects; which of the two happens is
    decided per call site by \<open>query_fails\<close>, a field of the surrounding \<open>world\<close>
    (connection loss, constraint violation, value out of the column's range, ...);
    a rejected statement changes no row;
  \<^item> the Stripe SDK is external: signature checking, fetching and updating a
    subscription and creating a portal session are fields of \<open>world\<close>, each able to
    throw;
  \<^item> a JavaScript exception is a value \<open>Inl\<close> of a sum type; \<^verbatim>\<open>console.log\<close> and
    \<^verbatim>\<open>console.error\<close> have no effect on the state and are left out, as are the
    human-readable messages of \<^verbatim>\<open>TRPCError\<close>.
\<close>

subsection \<open>Tables\<close>

datatype sub_status = Active | Canceled | PastDue | Trialing | Incomplete

datatype payment_status = Succeeded | Pending | Failed

record plan_row =
  plan_row_id :: nat
  name :: string
  description :: "string option"
  price_monthly :: rat
  price_yearly :: "rat option"

record subscription_row =
  row_id :: nat
  user_id :: string
  plan_id :: nat
  stripe_customer_id :: "string option"
  stripe_subscription_id :: "string option"
  status :: sub_status
  current_period_start :: "int option"
  current_period_end :: "int option"
  cancel_at_period_end :: bool
  trial_end :: "int option"
  created_at :: int
  updated_at :: int

record payment_row =
  pay_id :: nat
  subscription_id :: nat
  stripe_payment_intent_id :: "string option"
  amount :: rat
  currency :: string
  pay_status :: payment_status
  payment_method :: string
  paid_at :: "int option"
  pay_created_at :: int

text \<open>
  The two \<^verbatim>\<open>AUTO_INCREMENT\<close> counters are part of the state. The migration declares
  plain (non-unique) indexes on \<^verbatim>\<open>stripe_subscription_id\<close> and
  \<^verbatim>\<open>stripe_payment_intent_id\<close>: no statement is rejected for a repeated value there.
\<close>

record database =
  subscription_plans :: "plan_row list"
  subscriptions :: "subscription_row list"
  payment_history :: "payment_row list"
  subscriptions_auto_increment :: nat
  payment_history_auto_increment :: nat

subsection \<open>Stripe objects and the outside world\<close>

record stripe_subscription =
  ssub_id :: string
  ssub_status :: sub_status
  ssub_current_period_start :: int
  ssub_current_period_end :: int
  ssub_cancel_at_period_end :: bool
  ssub_trial_end :: "int option"

record checkout_session =
  metadata_userId :: "string option"
  session_subscription :: "string option"
  session_customer :: "string option"

record invoice =
  inv_id :: string
  inv_subscription :: "string option"
  inv_payment_intent :: "string option"
  inv_amount_paid :: "int option"
  inv_currency :: "string option"
  inv_payment_method_types :: "string list option"
  inv_paid_at :: "int option"

datatype stripe_event =
    checkout_session_completed checkout_session
  | customer_subscription_updated stripe_subscription
  | customer_subscription_deleted stripe_subscription
  | invoice_payment_succeeded invoice
  | invoice_payment_failed invoice
  | unhandled_event string

text \<open>One constructor per \<^verbatim>\<open>db.query\<close> call of the source.\<close>

datatype query_site =
    Q_hasActiveSubscription
  | Q_getSubscriptionStatus
  | Q_cancelSubscription
  | Q_reactivateSubscription
  | Q_handleCheckoutCompleted
  | Q_handleSubscriptionUpdated
  | Q_handleSubscriptionCanceled
  | Q_handlePaymentSucceeded_select
  | Q_handlePaymentSucceeded_insert
  | Q_handlePaymentFailed

text \<open>
  \<open>js_now_ms\<close> is \<^verbatim>\<open>Date.now()\<close>, \<open>db_now\<close> is the server's \<^verbatim>\<open>NOW()\<close> in seconds.
  \<open>stripe_constructEvent body signature secret\<close> is \<^verbatim>\<open>stripe.webhooks.constructEvent\<close>:
  \<open>Inl msg\<close> when it throws an error with that message. \<open>stripe_subscriptions_retrieve\<close>
  and \<open>stripe_billingPortal_create\<close> give \<open>None\<close> when the call throws;
  \<open>stripe_subscriptions_update id flag\<close> is \<open>True\<close> when
  \<^verbatim>\<open>stripe.subscriptions.update(id, {cancel_at_period_end: flag})\<close> resolves.
\<close>

record world =
  js_now_ms :: int
  db_now :: int
  query_fails :: "query_site \<Rightarrow> bool"
  STRIPE_WEBHOOK_SECRET :: "string option"
  stripe_constructEvent :: "string \<Rightarrow> string \<Rightarrow> string \<Rightarrow> string + stripe_event"
  stripe_subscriptions_retrieve :: "string \<Rightarrow> stripe_subscription option"
  stripe_subscriptions_update :: "string \<Rightarrow> bool \<Rightarrow> bool"
  stripe_billingPortal_create :: "string \<Rightarrow> string option"

subsection \<open>JavaScript values\<close>

text \<open>
  \<^verbatim>\<open>hasActiveSubscription\<close> returns the value of \<^verbatim>\<open>isActiveStatus && isNotExpired\<close>,
  where \<^verbatim>\<open>isNotExpired\<close> is itself \<^verbatim>\<open>sub.current_period_end && (... > ...)\<close>: a
  boolean or \<^verbatim>\<open>null\<close>.
\<close>

datatype js_value = JSBool bool | JSNull

fun truthy :: "js_value \<Rightarrow> bool" where
  "truthy (JSBool b) = b"
| "truthy JSNull = False"

definition js_and :: "js_value \<Rightarrow> js_value \<Rightarrow> js_value" where
  "js_and a b = (if truthy a then b else a)"

subsection \<open>SQL fragments\<close>

text \<open>\<^verbatim>\<open>column = ?\<close>: a \<^verbatim>\<open>NULL\<close> on either side never matches.\<close>

definition sql_eq :: "string option \<Rightarrow> string option \<Rightarrow> bool" where
  "sql_eq col p = (case col of None \<Rightarrow> False
     | Some a \<Rightarrow> (case p of None \<Rightarrow> False | Some b \<Rightarrow> a = b))"

text \<open>Timestamps are kept as unix seconds, so \<^verbatim>\<open>FROM_UNIXTIME\<close> only passes \<^verbatim>\<open>NULL\<close> on.\<close>

definition FROM_UNIXTIME :: "int option \<Rightarrow> int option" where
  "FROM_UNIXTIME t = t"

text \<open>
  \<^verbatim>\<open>ORDER BY created_at DESC LIMIT 1\<close>: a row of greatest \<^verbatim>\<open>created_at\<close>; among
  equal ones (SQL leaves the choice open) the first in storage order.
\<close>

fun order_by_created_at_desc_limit_1 :: "subscription_row list \<Rightarrow> subscription_row option" where
  "order_by_created_at_desc_limit_1 [] = None"
| "order_by_created_at_desc_limit_1 (r # rs) =
     (case order_by_created_at_desc_limit_1 rs of
        None \<Rightarrow> Some r
      | Some m \<Rightarrow> if created_at r < created_at m then Some m else Some r)"

text \<open>
  \<^verbatim>\<open>SELECT ... FROM subscriptions s WHERE s.user_id = ? ORDER BY s.created_at DESC LIMIT 1\<close>,
  the query of both \<^verbatim>\<open>hasActiveSubscription\<close> and \<^verbatim>\<open>getSubscriptionStatus\<close>.
\<close>

definition most_recent_subscription :: "database \<Rightarrow> string \<Rightarrow> subscription_row option" where
  "most_recent_subscription db userId =
     order_by_created_at_desc_limit_1 (filter (\<lambda>s. user_id s = userId) (subscriptions db))"

subsection \<open>Entitlement query (middleware)\<close>

definition hasActiveSubscription :: "world \<Rightarrow> database \<Rightarrow> string \<Rightarrow> js_value" where
  "hasActiveSubscription w db userId =
     (if query_fails w Q_hasActiveSubscription then JSBool False
      else case most_recent_subscription db userId of
        None \<Rightarrow> JSBool False
      | Some sub \<Rightarrow>
          (let isActiveStatus = JSBool (status sub \<in> set [Active, Trialing]);
               isNotExpired = (case current_period_end sub of
                   None \<Rightarrow> JSNull
                 | Some e \<Rightarrow> JSBool (js_now_ms w < e * 1000))
           in js_and isActiveStatus isNotExpired))"

datatype trpc_code = UNAUTHORIZED | FORBIDDEN | NOT_FOUND | INTERNAL_SERVER_ERROR

definition requireAuth :: "string option \<Rightarrow> trpc_code + string" where
  "requireAuth userId =
     (case userId of
        None \<Rightarrow> Inl UNAUTHORIZED
      | Some u \<Rightarrow> if u = [] then Inl UNAUTHORIZED else Inr u)"

definition requirePremium :: "world \<Rightarrow> database \<Rightarrow> string option \<Rightarrow> trpc_code + string" where
  "requirePremium w db userId =
     (case requireAuth userId of
        Inl e \<Rightarrow> Inl e
      | Inr validUserId \<Rightarrow>
          if \<not> truthy (hasActiveSubscription w db validUserId) then Inl FORBIDDEN
          else Inr validUserId)"

text \<open>
  The object \<^verbatim>\<open>getSubscriptionStatus\<close> returns. \<open>sv_status\<close> is \<^verbatim>\<open>'none'\<close>,
  \<^verbatim>\<open>'error'\<close> or the row's status; every other property is absent
  (\<^verbatim>\<open>undefined\<close>) in the first two cases and may be \<^verbatim>\<open>null\<close> in the third, and
  both read as \<open>None\<close>. The plan columns come from a \<^verbatim>\<open>LEFT JOIN\<close> on the plan's
  primary key.
\<close>

record plan_view =
  pv_name :: "string option"
  pv_description :: "string option"
  priceMonthly :: "rat option"
  priceYearly :: "rat option"

record subscription_status =
  sv_status :: string
  hasAccess :: js_value
  plan :: "plan_view option"
  currentPeriodStart :: "int option"
  currentPeriodEnd :: "int option"
  cancelAtPeriodEnd :: "bool option"
  trialEnd :: "int option"
  stripeCustomerId :: "string option"
  stripeSubscriptionId :: "string option"

fun status_name :: "sub_status \<Rightarrow> string" where
  "status_name Active = ''active''"
| "status_name Canceled = ''canceled''"
| "status_name PastDue = ''past_due''"
| "status_name Trialing = ''trialing''"
| "status_name Incomplete = ''incomplete''"

definition left_join_plan :: "database \<Rightarrow> subscription_row \<Rightarrow> plan_view" where
  "left_join_plan db s =
     (case find (\<lambda>p. plan_row_id p = plan_id s) (subscription_plans db) of
        None \<Rightarrow> \<lparr>pv_name = None, pv_description = None, priceMonthly = None, priceYearly = None\<rparr>
      | Some p \<Rightarrow> \<lparr>pv_name = Some (name p), pv_description = description p,
                   priceMonthly = Some (price_monthly p), priceYearly = price_yearly p\<rparr>)"

definition status_without_row :: "string \<Rightarrow> subscription_status" where
  "status_without_row s =
     \<lparr>sv_status = s, hasAccess = JSBool False, plan = None, currentPeriodStart = None,
      currentPeriodEnd = None, cancelAtPeriodEnd = None, trialEnd = None,
      stripeCustomerId = None, stripeSubscriptionId = None\<rparr>"

definition getSubscriptionStatus :: "world \<Rightarrow> database \<Rightarrow> string \<Rightarrow> subscription_status" where
  "getSubscriptionStatus w db userId =
     (if query_fails w Q_getSubscriptionStatus then status_without_row ''error''
      else case most_recent_subscription db userId of
        None \<Rightarrow> status_without_row ''none''
      | Some sub \<Rightarrow>
          \<lparr>sv_status = status_name (status sub),
           hasAccess = hasActiveSubscription w db userId,
           plan = Some (left_join_plan db sub),
           currentPeriodStart = current_period_start sub,
           currentPeriodEnd = current_period_end sub,
           cancelAtPeriodEnd = Some (cancel_at_period_end sub),
           trialEnd = trial_end sub,
           stripeCustomerId = stripe_customer_id sub,
           stripeSubscriptionId = stripe_subscription_id sub\<rparr>)"

subsection \<open>Statements of the router\<close>

text \<open>\<^verbatim>\<open>UPDATE subscriptions SET ... WHERE stripe_subscription_id = ?\<close>: every matching row.\<close>

definition update_where_stripe_subscription_id ::
  "string option \<Rightarrow> (subscription_row \<Rightarrow> subscription_row) \<Rightarrow> database \<Rightarrow> database" where
  "update_where_stripe_subscription_id p f db =
     db\<lparr>subscriptions :=
          map (\<lambda>s. if sql_eq (stripe_subscription_id s) p then f s else s) (subscriptions db)\<rparr>"

text \<open>\<^verbatim>\<open>INSERT INTO subscriptions\<close>: the row takes the next id and is stored last.\<close>

definition insert_subscription :: "subscription_row \<Rightarrow> database \<Rightarrow> database" where
  "insert_subscription s db =
     db\<lparr>subscriptions := subscriptions db @ [s\<lparr>row_id := subscriptions_auto_increment db\<rparr>],
        subscriptions_auto_increment := Suc (subscriptions_auto_increment db)\<rparr>"

definition insert_payment :: "payment_row \<Rightarrow> database \<Rightarrow> database" where
  "insert_payment p db =
     db\<lparr>payment_history := payment_history db @ [p\<lparr>pay_id := payment_history_auto_increment db\<rparr>],
        payment_history_auto_increment := Suc (payment_history_auto_increment db)\<rparr>"

subsection \<open>User commands\<close>

text \<open>
  Each command returns its result and the database after it. A \<^verbatim>\<open>TRPCError\<close> is
  represented by its code.
\<close>

definition createPortalSession :: "world \<Rightarrow> string \<Rightarrow> trpc_code + string" where
  "createPortalSession w customerId =
     (case stripe_billingPortal_create w customerId of
        None \<Rightarrow> Inl INTERNAL_SERVER_ERROR
      | Some url \<Rightarrow> Inr url)"

datatype success = Success

definition cancelSubscription ::
  "world \<Rightarrow> string \<Rightarrow> database \<Rightarrow> (trpc_code + success) \<times> database" where
  "cancelSubscription w subscriptionId db =
     (if \<not> stripe_subscriptions_update w subscriptionId True then (Inl INTERNAL_SERVER_ERROR, db)
      else if query_fails w Q_cancelSubscription then (Inl INTERNAL_SERVER_ERROR, db)
      else (Inr Success,
            update_where_stripe_subscription_id (Some subscriptionId)
              (\<lambda>s. s\<lparr>cancel_at_period_end := True, updated_at := db_now w\<rparr>) db))"

definition reactivateSubscription ::
  "world \<Rightarrow> string \<Rightarrow> database \<Rightarrow> (trpc_code + success) \<times> database" where
  "reactivateSubscription w subscriptionId db =
     (if \<not> stripe_subscriptions_update w subscriptionId False then (Inl INTERNAL_SERVER_ERROR, db)
      else if query_fails w Q_reactivateSubscription then (Inl INTERNAL_SERVER_ERROR, db)
      else (Inr Success,
            update_where_stripe_subscription_id (Some subscriptionId)
              (\<lambda>s. s\<lparr>cancel_at_period_end := False, updated_at := db_now w\<rparr>) db))"

text \<open>
  The three router entries below test \<^verbatim>\<open>!status.stripeCustomerId\<close> and
  \<^verbatim>\<open>!status.stripeSubscriptionId\<close>: true for an absent, a \<^verbatim>\<open>null\<close> and an empty
  reference.
\<close>

definition createPortal :: "world \<Rightarrow> string option \<Rightarrow> database \<Rightarrow> (trpc_code + string) \<times> database" where
  "createPortal w userId db =
     (case requireAuth userId of
        Inl e \<Rightarrow> (Inl e, db)
      | Inr u \<Rightarrow>
          (case stripeCustomerId (getSubscriptionStatus w db u) of
             None \<Rightarrow> (Inl NOT_FOUND, db)
           | Some c \<Rightarrow>
               if c = [] then (Inl NOT_FOUND, db)
               else (createPortalSession w c, db)))"

definition cancel :: "world \<Rightarrow> string option \<Rightarrow> database \<Rightarrow> (trpc_code + success) \<times> database" where
  "cancel w userId db =
     (case requireAuth userId of
        Inl e \<Rightarrow> (Inl e, db)
      | Inr u \<Rightarrow>
          (case stripeSubscriptionId (getSubscriptionStatus w db u) of
             None \<Rightarrow> (Inl NOT_FOUND, db)
           | Some c \<Rightarrow>
               if c = [] then (Inl NOT_FOUND, db)
               else cancelSubscription w c db))"

definition reactivate :: "world \<Rightarrow> string option \<Rightarrow> database \<Rightarrow> (trpc_code + success) \<times> database" where
  "reactivate w userId db =
     (case requireAuth userId of
        Inl e \<Rightarrow> (Inl e, db)
      | Inr u \<Rightarrow>
          (case stripeSubscriptionId (getSubscriptionStatus w db u) of
             None \<Rightarrow> (Inl NOT_FOUND, db)
           | Some c \<Rightarrow>
               if c = [] then (Inl NOT_FOUND, db)
               else reactivateSubscription w c db))"

subsection \<open>Webhook handlers\<close>

text \<open>
  Every handler wraps its body in \<^verbatim>\<open>try { ... } catch (error) { console.error(...) }\<close>:
  a rejected statement or a throwing Stripe call ends the handler normally, with the
  database as it was. \<^verbatim>\<open>handleCheckoutCompleted\<close> returns at once when the user id
  or the subscription id of the session is absent or empty.
\<close>

definition handleCheckoutCompleted :: "world \<Rightarrow> checkout_session \<Rightarrow> database \<Rightarrow> database" where
  "handleCheckoutCompleted w session db =
     (case metadata_userId session of
        None \<Rightarrow> db
      | Some userId \<Rightarrow>
          (case session_subscription session of
             None \<Rightarrow> db
           | Some subscriptionId \<Rightarrow>
               if userId = [] \<or> subscriptionId = [] then db
               else
                 (case stripe_subscriptions_retrieve w subscriptionId of
                    None \<Rightarrow> db
                  | Some subscription \<Rightarrow>
                      if query_fails w Q_handleCheckoutCompleted then db
                      else insert_subscription
                        \<lparr>row_id = 0,
                         user_id = userId,
                         plan_id = 1,
                         stripe_customer_id = session_customer session,
                         stripe_subscription_id = Some subscriptionId,
                         status = ssub_status subscription,
                         current_period_start =
                           FROM_UNIXTIME (Some (ssub_current_period_start subscription)),
                         current_period_end =
                           FROM_UNIXTIME (Some (ssub_current_period_end subscription)),
                         cancel_at_period_end = False,
                         trial_end =
                           (case ssub_trial_end subscription of
                              None \<Rightarrow> None
                            | Some t \<Rightarrow> if t = 0 then None else Some t),
                         created_at = db_now w,
                         updated_at = db_now w\<rparr> db)))"

definition handleSubscriptionUpdated :: "world \<Rightarrow> stripe_subscription \<Rightarrow> database \<Rightarrow> database" where
  "handleSubscriptionUpdated w subscription db =
     (if query_fails w Q_handleSubscriptionUpdated then db
      else update_where_stripe_subscription_id (Some (ssub_id subscription))
        (\<lambda>s. s\<lparr>status := ssub_status subscription,
                current_period_start :=
                  FROM_UNIXTIME (Some (ssub_current_period_start subscription)),
                current_period_end :=
                  FROM_UNIXTIME (Some (ssub_current_period_end subscription)),
                cancel_at_period_end := ssub_cancel_at_period_end subscription,
                updated_at := db_now w\<rparr>) db)"

definition handleSubscriptionCanceled :: "world \<Rightarrow> stripe_subscription \<Rightarrow> database \<Rightarrow> database" where
  "handleSubscriptionCanceled w subscription db =
     (if query_fails w Q_handleSubscriptionCanceled then db
      else update_where_stripe_subscription_id (Some (ssub_id subscription))
        (\<lambda>s. s\<lparr>status := Canceled, updated_at := db_now w\<rparr>) db)"

text \<open>
  \<^verbatim>\<open>toUpperCase\<close> is embedded on the ASCII letters, the alphabet of Stripe's currency
  codes; JavaScript also maps letters beyond ASCII. The amount
  \<^verbatim>\<open>(invoice.amount_paid || 0) / 100\<close> is kept as the exact quotient, where JavaScript
  computes a double that the \<^verbatim>\<open>DECIMAL(10, 2)\<close> column then rounds. No property below
  reads the currency or the amount.
\<close>

definition upper_char :: "char \<Rightarrow> char" where
  "upper_char c =
     (let n = (of_char c :: nat) in if 97 \<le> n \<and> n \<le> 122 then char_of (n - 32) else c)"

definition toUpperCase :: "string \<Rightarrow> string" where
  "toUpperCase s = map upper_char s"

text \<open>\<^verbatim>\<open>a || b\<close> on strings: \<open>b\<close> when \<open>a\<close> is absent or empty.\<close>

definition or_else_str :: "string option \<Rightarrow> string \<Rightarrow> string" where
  "or_else_str a b = (case a of None \<Rightarrow> b | Some t \<Rightarrow> if t = [] then b else t)"

text \<open>\<^verbatim>\<open>a || b\<close> on numbers: \<open>b\<close> when \<open>a\<close> is absent or zero.\<close>

definition or_else_num :: "int option \<Rightarrow> int \<Rightarrow> int" where
  "or_else_num a b = (case a of None \<Rightarrow> b | Some n \<Rightarrow> if n = 0 then b else n)"

text \<open>
  The handler first runs
  \<^verbatim>\<open>SELECT id FROM subscriptions WHERE stripe_subscription_id = ? LIMIT 1\<close> (with no
  \<^verbatim>\<open>ORDER BY\<close>: the first matching row in storage order), then inserts the payment.
\<close>

definition handlePaymentSucceeded :: "world \<Rightarrow> invoice \<Rightarrow> database \<Rightarrow> database" where
  "handlePaymentSucceeded w invoice db =
     (if query_fails w Q_handlePaymentSucceeded_select then db
      else case find (\<lambda>s. sql_eq (stripe_subscription_id s) (inv_subscription invoice))
                  (subscriptions db) of
        None \<Rightarrow> db
      | Some r \<Rightarrow>
          (let subscriptionId = row_id r in
           if query_fails w Q_handlePaymentSucceeded_insert then db
           else insert_payment
             \<lparr>pay_id = 0,
              subscription_id = subscriptionId,
              stripe_payment_intent_id = inv_payment_intent invoice,
              amount = of_int (or_else_num (inv_amount_paid invoice) 0) / 100,
              currency = or_else_str (map_option toUpperCase (inv_currency invoice)) ''BRL'',
              pay_status = Succeeded,
              payment_method =
                or_else_str
                  (case inv_payment_method_types invoice of
                     None \<Rightarrow> None
                   | Some ms \<Rightarrow> (case ms of [] \<Rightarrow> None | m # _ \<Rightarrow> Some m))
                  ''card'',
              paid_at =
                FROM_UNIXTIME (Some (or_else_num (inv_paid_at invoice) (js_now_ms w div 1000))),
              pay_created_at = db_now w\<rparr> db))"

definition handlePaymentFailed :: "world \<Rightarrow> invoice \<Rightarrow> database \<Rightarrow> database" where
  "handlePaymentFailed w invoice db =
     (if query_fails w Q_handlePaymentFailed then db
      else update_where_stripe_subscription_id (inv_subscription invoice)
        (\<lambda>s. s\<lparr>status := PastDue, updated_at := db_now w\<rparr>) db)"

text \<open>The \<^verbatim>\<open>switch (event.type)\<close> of \<^verbatim>\<open>handleStripeWebhook\<close>.\<close>

fun switch_event_type :: "world \<Rightarrow> stripe_event \<Rightarrow> database \<Rightarrow> database" where
  "switch_event_type w (checkout_session_completed session) db =
     handleCheckoutCompleted w session db"
| "switch_event_type w (customer_subscription_updated subscription) db =
     handleSubscriptionUpdated w subscription db"
| "switch_event_type w (customer_subscription_deleted subscription) db =
     handleSubscriptionCanceled w subscription db"
| "switch_event_type w (invoice_payment_succeeded invoice) db =
     handlePaymentSucceeded w invoice db"
| "switch_event_type w (invoice_payment_failed invoice) db =
     handlePaymentFailed w invoice db"
| "switch_event_type w (unhandled_event t) db = db"

datatype js_error = Error string

datatype webhook_reply = Received

definition handleStripeWebhook ::
  "world \<Rightarrow> string \<Rightarrow> string \<Rightarrow> database \<Rightarrow> (js_error + webhook_reply) \<times> database" where
  "handleStripeWebhook w body signature db =
     (case stripe_constructEvent w body signature (or_else_str (STRIPE_WEBHOOK_SECRET w) [])
      of
        Inl message \<Rightarrow> (Inl (Error (''Webhook Error: '' @ message)), db)
      | Inr event \<Rightarrow> (Inr Received, switch_event_type w event db))"

text \<open>Several verified events applied one after the other.\<close>

fun apply_events :: "world \<Rightarrow> stripe_event list \<Rightarrow> database \<Rightarrow> database" where
  "apply_events w [] db = db"
| "apply_events w (e # es) db = apply_events w es (switch_event_type w e db)"

text \<open>The statement by which each handler persists its event.\<close>

fun persistence_site :: "stripe_event \<Rightarrow> query_site option" where
  "persistence_site (checkout_session_completed session) = Some Q_handleCheckoutCompleted"
| "persistence_site (customer_subscription_updated subscription) = Some Q_handleSubscriptionUpdated"
| "persistence_site (customer_subscription_deleted subscription) = Some Q_handleSubscriptionCanceled"
| "persistence_site (invoice_payment_succeeded invoice) = Some Q_handlePaymentSucceeded_insert"
| "persistence_site (invoice_payment_failed invoice) = Some Q_handlePaymentFailed"
| "persistence_site (unhandled_event t) = None"

text \<open>The payment rows carrying a given \<^verbatim>\<open>stripe_payment_intent_id\<close>.\<close>

definition payments_with_ref :: "string option \<Rightarrow> database \<Rightarrow> payment_row list" where
  "payments_with_ref p db = filter (\<lambda>r. stripe_payment_intent_id r = p) (payment_history db)"

text \<open>
  The provider references a command finds for a user: those of the user's most recent
  subscription row, when they are neither \<^verbatim>\<open>NULL\<close> nor empty.
\<close>

definition provider_customer_ref :: "database \<Rightarrow> string \<Rightarrow> string option" where
  "provider_customer_ref db u =
     (case most_recent_subscription db u of
        None \<Rightarrow> None
      | Some sub \<Rightarrow>
          (case stripe_customer_id sub of
             None \<Rightarrow> None
           | Some c \<Rightarrow> if c = [] then None else Some c))"

definition provider_subscription_ref :: "database \<Rightarrow> string \<Rightarrow> string option" where
  "provider_subscription_ref db u =
     (case most_recent_subscription db u of
        None \<Rightarrow> None
      | Some sub \<Rightarrow>
          (case stripe_subscription_id sub of
             None \<Rightarrow> None
           | Some c \<Rightarrow> if c = [] then None else Some c))"

subsection \<open>Concrete data\<close>

text \<open>
  A world in which every statement and every Stripe call succeeds. Its signature check
  accepts the signature \<open>''t=1,v1=ok''\<close> under the configured secret and reads the
  event off the body.
\<close>

definition subscription_S1 :: "sub_status \<Rightarrow> stripe_subscription" where
  "subscription_S1 st =
     \<lparr>ssub_id = ''sub_S1'', ssub_status = st,
      ssub_current_period_start = 1700000000, ssub_current_period_end = 1700604800,
      ssub_cancel_at_period_end = False, ssub_trial_end = Some 1700604800\<rparr>"

definition checkout_S1 :: checkout_session where
  "checkout_S1 =
     \<lparr>metadata_userId = Some ''42'', session_subscription = Some ''sub_S1'',
      session_customer = Some ''cus_C1''\<rparr>"

definition invoice_P1 :: invoice where
  "invoice_P1 =
     \<lparr>inv_id = ''in_1'', inv_subscription = Some ''sub_S1'',
      inv_payment_intent = Some ''pi_P1'', inv_amount_paid = Some 1990,
      inv_currency = Some ''brl'', inv_payment_method_types = Some [''card''],
      inv_paid_at = Some 1700000100\<rparr>"

definition invoice_unknown :: invoice where
  "invoice_unknown = invoice_P1\<lparr>inv_subscription := Some ''sub_unknown''\<rparr>"

definition example_event :: "string \<Rightarrow> stripe_event" where
  "example_event body =
     (if body = ''checkout'' then checkout_session_completed checkout_S1
      else if body = ''updated'' then customer_subscription_updated (subscription_S1 Active)
      else if body = ''deleted'' then customer_subscription_deleted (subscription_S1 Canceled)
      else if body = ''paid'' then invoice_payment_succeeded invoice_P1
      else if body = ''paid_unknown'' then invoice_payment_succeeded invoice_unknown
      else if body = ''failed'' then invoice_payment_failed invoice_P1
      else unhandled_event body)"

definition calm_world :: world where
  "calm_world =
     \<lparr>js_now_ms = 1700000000000,
      db_now = 1700000000,
      query_fails = (\<lambda>q. False),
      STRIPE_WEBHOOK_SECRET = Some ''whsec_1'',
      stripe_constructEvent = (\<lambda>body signature secret.
         if signature = ''t=1,v1=ok'' \<and> secret = ''whsec_1'' then Inr (example_event body)
         else Inl ''No signatures found matching the expected signature for payload''),
      stripe_subscriptions_retrieve = (\<lambda>i.
         if i = ''sub_S1'' then Some (subscription_S1 Trialing) else None),
      stripe_subscriptions_update = (\<lambda>i flag. True),
      stripe_billingPortal_create = (\<lambda>c. Some ''https://billing.stripe.com/p/session/1'')\<rparr>"

text \<open>The same world with every statement rejected, and with Stripe unreachable.\<close>

definition storage_down_world :: world where
  "storage_down_world = calm_world\<lparr>query_fails := (\<lambda>q. True)\<rparr>"

definition stripe_down_world :: world where
  "stripe_down_world =
     calm_world\<lparr>stripe_subscriptions_retrieve := (\<lambda>i. None),
                stripe_subscriptions_update := (\<lambda>i flag. False),
                stripe_billingPortal_create := (\<lambda>c. None)\<rparr>"

definition empty_db :: database where
  "empty_db =
     \<lparr>subscription_plans =
        [\<lparr>plan_row_id = 1, name = ''Premium'', description = None,
          price_monthly = 199 / 10, price_yearly = Some 199\<rparr>],
      subscriptions = [], payment_history = [],
      subscriptions_auto_increment = 1, payment_history_auto_increment = 1\<rparr>"

text \<open>User 42 holds subscription \<open>sub_S1\<close> in the given status, with the given period end.\<close>

definition row_S1 :: "sub_status \<Rightarrow> int option \<Rightarrow> subscription_row" where
  "row_S1 st pe =
     \<lparr>row_id = 1, user_id = ''42'', plan_id = 1, stripe_customer_id = Some ''cus_C1'',
      stripe_subscription_id = Some ''sub_S1'', status = st,
      current_period_start = Some 1699000000, current_period_end = pe,
      cancel_at_period_end = False, trial_end = None,
      created_at = 1699000000, updated_at = 1699000000\<rparr>"

definition db_S1 :: "sub_status \<Rightarrow> int option \<Rightarrow> database" where
  "db_S1 st pe = empty_db\<lparr>subscriptions := [row_S1 st pe], subscriptions_auto_increment := 2\<rparr>"

text \<open>
  A second, newer row of user 42 (subscription \<open>sub_S2\<close>), and a store holding the
  given rows in the given storage order.
\<close>

definition row_S2 :: "sub_status \<Rightarrow> int option \<Rightarrow> subscription_row" where
  "row_S2 st pe =
     \<lparr>row_id = 2, user_id = ''42'', plan_id = 1, stripe_customer_id = Some ''cus_C1'',
      stripe_subscription_id = Some ''sub_S2'', status = st,
      current_period_start = Some 1699500000, current_period_end = pe,
      cancel_at_period_end = False, trial_end = None,
      created_at = 1699500000, updated_at = 1699500000\<rparr>"

definition db_rows :: "subscription_row list \<Rightarrow> database" where
  "db_rows rows = empty_db\<lparr>subscriptions := rows, subscriptions_auto_increment := 3\<rparr>"

section \<open>Properties\<close>

subsection \<open>The most recent subscription of a user\<close>

lemma limit_1_None: "(order_by_created_at_desc_limit_1 rs = None) = (rs = [])"
  by (induction rs) (auto split: option.splits)

lemma limit_1_Some:
  "order_by_created_at_desc_limit_1 rs = Some m \<Longrightarrow>
     m \<in> set rs \<and> (\<forall>r\<in>set rs. created_at r \<le> created_at m)"
proof (induction rs arbitrary: m)
  case Nil
  then show ?case by simp
next
  case (Cons r rs)
  show ?case
  proof (cases "order_by_created_at_desc_limit_1 rs")
    case None
    then have "rs = []" by (simp add: limit_1_None)
    with Cons.prems show ?thesis by simp
  next
    case (Some k)
    from Cons.IH [OF Some] have k: "k \<in> set rs" "\<forall>x\<in>set rs. created_at x \<le> created_at k"
      by simp_all
    show ?thesis
    proof (cases "created_at r < created_at k")
      case True
      with Some Cons.prems have "m = k" by simp
      with k True show ?thesis by auto
    next
      case False
      with Some Cons.prems have "m = r" by simp
      with k False show ?thesis by fastforce
    qed
  qed
qed

lemma most_recent_None:
  "(most_recent_subscription db u = None) = (\<forall>s\<in>set (subscriptions db). user_id s \<noteq> u)"
  by (auto simp: most_recent_subscription_def limit_1_None filter_empty_conv)

lemma most_recent_Some:
  assumes "most_recent_subscription db u = Some sub"
  shows "sub \<in> set (subscriptions db) \<and> user_id sub = u \<and>
         (\<forall>s\<in>set (subscriptions db). user_id s = u \<longrightarrow> created_at s \<le> created_at sub)"
  using limit_1_Some [OF assms [unfolded most_recent_subscription_def]] by auto

subsection \<open>Entitlement\<close>

lemma js_and_True: "(js_and (JSBool a) b = JSBool True) = (a \<and> b = JSBool True)"
  by (simp add: js_and_def)

lemma most_recent_exists:
  assumes "\<exists>s\<in>set (subscriptions db). user_id s = u"
  shows "\<exists>sub. most_recent_subscription db u = Some sub"
proof (cases "most_recent_subscription db u")
  case None
  with assms show ?thesis by (simp add: most_recent_None)
next
  case (Some sub)
  then show ?thesis by simp
qed

lemma most_recent_strictly_newest:
  assumes "sub \<in> set (subscriptions db)" and "user_id sub = u"
    and "\<forall>s\<in>set (subscriptions db). user_id s = u \<and> s \<noteq> sub \<longrightarrow> created_at s < created_at sub"
  shows "most_recent_subscription db u = Some sub"
proof -
  from assms(1,2) obtain m where m: "most_recent_subscription db u = Some m"
    using most_recent_exists by blast
  from most_recent_Some [OF m]
  have mem: "m \<in> set (subscriptions db)" and usr: "user_id m = u"
    and top: "\<forall>s\<in>set (subscriptions db). user_id s = u \<longrightarrow> created_at s \<le> created_at m"
    by simp_all
  have "m = sub"
  proof (rule ccontr)
    assume "m \<noteq> sub"
    with assms(3) mem usr have "created_at m < created_at sub" by blast
    moreover from top assms(1,2) have "created_at sub \<le> created_at m" by blast
    ultimately show False by simp
  qed
  with m show ?thesis by simp
qed

text \<open>
  C5. Provided the store answers the query, \<^verbatim>\<open>hasActiveSubscription\<close> returns
  \<^verbatim>\<open>true\<close> exactly when the user's most recent subscription row exists, its status is
  \<^verbatim>\<open>active\<close> or \<^verbatim>\<open>trialing\<close>, and its \<^verbatim>\<open>current_period_end\<close> is strictly later than
  the current time. The most recent row exists as soon as the user has a row; it is a
  row of that user with the greatest \<^verbatim>\<open>created_at\<close>, and it is the user's strictly
  newest row when there is one. A user with no row gets \<^verbatim>\<open>false\<close>. The result is
  computed from the row and the clock alone: the tables hold no entitlement flag.
\<close>

theorem hasActiveSubscription_entitlement:
  assumes "\<not> query_fails w Q_hasActiveSubscription"
  shows "((hasActiveSubscription w db userId = JSBool True) =
            (\<exists>sub. most_recent_subscription db userId = Some sub
               \<and> (status sub = Active \<or> status sub = Trialing)
               \<and> (\<exists>e. current_period_end sub = Some e \<and> js_now_ms w < e * 1000)))
       \<and> (\<forall>sub. most_recent_subscription db userId = Some sub \<longrightarrow>
             sub \<in> set (subscriptions db) \<and> user_id sub = userId \<and>
             (\<forall>s\<in>set (subscriptions db). user_id s = userId \<longrightarrow> created_at s \<le> created_at sub))
       \<and> ((\<forall>s\<in>set (subscriptions db). user_id s \<noteq> userId) \<longrightarrow>
             hasActiveSubscription w db userId = JSBool False)
       \<and> ((\<exists>s\<in>set (subscriptions db). user_id s = userId) \<longrightarrow>
             (\<exists>sub. most_recent_subscription db userId = Some sub))
       \<and> (\<forall>sub\<in>set (subscriptions db).
             user_id sub = userId \<and>
             (\<forall>s\<in>set (subscriptions db).
                user_id s = userId \<and> s \<noteq> sub \<longrightarrow> created_at s < created_at sub) \<longrightarrow>
             most_recent_subscription db userId = Some sub \<and>
             (hasActiveSubscription w db userId = JSBool True) =
               ((status sub = Active \<or> status sub = Trialing)
                \<and> (\<exists>e. current_period_end sub = Some e \<and> js_now_ms w < e * 1000)))"
proof -
  have iff: "(hasActiveSubscription w db userId = JSBool True) =
            (\<exists>sub. most_recent_subscription db userId = Some sub
               \<and> (status sub = Active \<or> status sub = Trialing)
               \<and> (\<exists>e. current_period_end sub = Some e \<and> js_now_ms w < e * 1000))"
    using assms
    by (cases "most_recent_subscription db userId")
       (auto simp: hasActiveSubscription_def js_and_True Let_def split: option.splits)
  have chosen: "\<forall>sub. most_recent_subscription db userId = Some sub \<longrightarrow>
             sub \<in> set (subscriptions db) \<and> user_id sub = userId \<and>
             (\<forall>s\<in>set (subscriptions db). user_id s = userId \<longrightarrow> created_at s \<le> created_at sub)"
    using most_recent_Some by blast
  have none: "(\<forall>s\<in>set (subscriptions db). user_id s \<noteq> userId) \<longrightarrow>
             hasActiveSubscription w db userId = JSBool False"
  proof
    assume "\<forall>s\<in>set (subscriptions db). user_id s \<noteq> userId"
    then have "most_recent_subscription db userId = None" by (simp add: most_recent_None)
    then show "hasActiveSubscription w db userId = JSBool False"
      by (simp add: hasActiveSubscription_def)
  qed
  have some: "(\<exists>s\<in>set (subscriptions db). user_id s = userId) \<longrightarrow>
             (\<exists>sub. most_recent_subscription db userId = Some sub)"
    using most_recent_exists by blast
  have newest: "\<forall>sub\<in>set (subscriptions db).
             user_id sub = userId \<and>
             (\<forall>s\<in>set (subscriptions db).
                user_id s = userId \<and> s \<noteq> sub \<longrightarrow> created_at s < created_at sub) \<longrightarrow>
             most_recent_subscription db userId = Some sub \<and>
             (hasActiveSubscription w db userId = JSBool True) =
               ((status sub = Active \<or> status sub = Trialing)
                \<and> (\<exists>e. current_period_end sub = Some e \<and> js_now_ms w < e * 1000))"
  proof (intro ballI impI)
    fix sub
    assume mem: "sub \<in> set (subscriptions db)"
      and h: "user_id sub = userId \<and>
             (\<forall>s\<in>set (subscriptions db).
                user_id s = userId \<and> s \<noteq> sub \<longrightarrow> created_at s < created_at sub)"
    from most_recent_strictly_newest [OF mem] h
    have m: "most_recent_subscription db userId = Some sub" by blast
    with iff show "most_recent_subscription db userId = Some sub \<and>
             (hasActiveSubscription w db userId = JSBool True) =
               ((status sub = Active \<or> status sub = Trialing)
                \<and> (\<exists>e. current_period_end sub = Some e \<and> js_now_ms w < e * 1000))"
      by simp
  qed
  from iff chosen none some newest show ?thesis by blast
qed

lemma most_recent_db_S1: "most_recent_subscription (db_S1 st pe) ''42'' = Some (row_S1 st pe)"
  by (simp add: most_recent_subscription_def db_S1_def row_S1_def)

lemma subs_db_rows: "subscriptions (db_rows rows) = rows"
  by (simp add: db_rows_def)

lemma rows_S1_S2:
  "row_S1 st pe \<noteq> row_S2 st' pe'"
  "user_id (row_S1 st pe) = ''42''" "user_id (row_S2 st pe) = ''42''"
  "created_at (row_S1 st pe) = 1699000000" "created_at (row_S2 st pe) = 1699500000"
  "status (row_S2 st pe) = st" "current_period_end (row_S2 st pe) = pe"
  by (simp_all add: row_S1_def row_S2_def)

theorem hasActiveSubscription_entitlement_witness:
  "\<not> query_fails calm_world Q_hasActiveSubscription
   \<and> hasActiveSubscription calm_world (db_S1 Trialing (Some 1700604800)) ''42'' = JSBool True
   \<and> hasActiveSubscription calm_world (db_S1 PastDue (Some 1700604800)) ''42'' \<noteq> JSBool True
   \<and> hasActiveSubscription calm_world (db_S1 Active (Some 1699999999)) ''42'' \<noteq> JSBool True
   \<and> hasActiveSubscription calm_world empty_db ''42'' = JSBool False
   \<and> hasActiveSubscription calm_world
        (db_rows [row_S1 Canceled (Some 1699400000), row_S2 Active (Some 1700604800)]) ''42''
       = JSBool True
   \<and> hasActiveSubscription calm_world
        (db_rows [row_S2 Active (Some 1700604800), row_S1 Canceled (Some 1699400000)]) ''42''
       = JSBool True
   \<and> hasActiveSubscription calm_world
        (db_rows [row_S1 Active (Some 1700604800), row_S2 Canceled (Some 1700604800)]) ''42''
       \<noteq> JSBool True"
proof -
  have h: "\<not> query_fails calm_world Q_hasActiveSubscription"
    by (simp add: calm_world_def)
  have now: "js_now_ms calm_world = 1700000000000"
    by (simp add: calm_world_def)
  note th = hasActiveSubscription_entitlement [OF h]
  have a: "hasActiveSubscription calm_world (db_S1 Trialing (Some 1700604800)) ''42'' = JSBool True"
    using th [of "db_S1 Trialing (Some 1700604800)" "''42''"]
    by (simp add: most_recent_db_S1 row_S1_def now)
  have b: "hasActiveSubscription calm_world (db_S1 PastDue (Some 1700604800)) ''42'' \<noteq> JSBool True"
    using th [of "db_S1 PastDue (Some 1700604800)" "''42''"]
    by (simp add: most_recent_db_S1 row_S1_def now)
  have c: "hasActiveSubscription calm_world (db_S1 Active (Some 1699999999)) ''42'' \<noteq> JSBool True"
    using th [of "db_S1 Active (Some 1699999999)" "''42''"]
    by (simp add: most_recent_db_S1 row_S1_def now)
  have d: "hasActiveSubscription calm_world empty_db ''42'' = JSBool False"
    using th [of empty_db "''42''"] by (simp add: empty_db_def)
  have e: "hasActiveSubscription calm_world
        (db_rows [row_S1 Canceled (Some 1699400000), row_S2 Active (Some 1700604800)]) ''42''
       = JSBool True"
    using th [of "db_rows [row_S1 Canceled (Some 1699400000), row_S2 Active (Some 1700604800)]"
                 "''42''"]
    by (simp add: subs_db_rows rows_S1_S2 now)
  have f: "hasActiveSubscription calm_world
        (db_rows [row_S2 Active (Some 1700604800), row_S1 Canceled (Some 1699400000)]) ''42''
       = JSBool True"
    using th [of "db_rows [row_S2 Active (Some 1700604800), row_S1 Canceled (Some 1699400000)]"
                 "''42''"]
    by (simp add: subs_db_rows rows_S1_S2 rows_S1_S2(1) [symmetric] now)
  have g: "hasActiveSubscription calm_world
        (db_rows [row_S1 Active (Some 1700604800), row_S2 Canceled (Some 1700604800)]) ''42''
       \<noteq> JSBool True"
    using th [of "db_rows [row_S1 Active (Some 1700604800), row_S2 Canceled (Some 1700604800)]"
                 "''42''"]
    by (simp add: subs_db_rows rows_S1_S2 now)
  from h a b c d e f g show ?thesis by simp
qed

text \<open>
  C10. The query never throws: a rejected statement gives \<^verbatim>\<open>false\<close>
  (\<open>hasActiveSubscription_fail_closed\<close> below). For a row whose
  \<^verbatim>\<open>current_period_end\<close> is \<^verbatim>\<open>NULL\<close> the result is falsy, but it is \<^verbatim>\<open>null\<close> and not
  \<^verbatim>\<open>false\<close> when the status is \<^verbatim>\<open>active\<close> or \<^verbatim>\<open>trialing\<close>: \<^verbatim>\<open>true && null\<close> is
  \<^verbatim>\<open>null\<close>.
\<close>

theorem hasActiveSubscription_null_period_end:
  "hasActiveSubscription calm_world (db_S1 Active None) ''42'' = JSNull
   \<and> hasActiveSubscription calm_world (db_S1 Active None) ''42'' \<noteq> JSBool False"
  by (simp add: hasActiveSubscription_def most_recent_db_S1 row_S1_def js_and_def calm_world_def)

lemma hasActiveSubscription_fail_closed:
  "query_fails w Q_hasActiveSubscription \<Longrightarrow> hasActiveSubscription w db userId = JSBool False"
  by (simp add: hasActiveSubscription_def)

lemma hasActiveSubscription_null_falsy:
  "most_recent_subscription db userId = Some sub \<Longrightarrow> current_period_end sub = None \<Longrightarrow>
   \<not> truthy (hasActiveSubscription w db userId)"
  by (simp add: hasActiveSubscription_def js_and_def)

subsection \<open>The webhook\<close>

lemma subscriptions_update_where:
  "subscriptions (update_where_stripe_subscription_id p f db) =
     map (\<lambda>s. if sql_eq (stripe_subscription_id s) p then f s else s) (subscriptions db)"
  by (simp add: update_where_stripe_subscription_id_def)

lemma payment_history_update_where:
  "payment_history (update_where_stripe_subscription_id p f db) = payment_history db"
  by (simp add: update_where_stripe_subscription_id_def)

lemma sql_eq_Some: "sql_eq (Some a) (Some b) = (a = b)"
  by (simp add: sql_eq_def)

lemma secret_calm: "or_else_str (STRIPE_WEBHOOK_SECRET calm_world) [] = ''whsec_1''"
  by (simp add: or_else_str_def calm_world_def)

lemma constructEvent_calm:
  "stripe_constructEvent calm_world body signature secret =
     (if signature = ''t=1,v1=ok'' \<and> secret = ''whsec_1'' then Inr (example_event body)
      else Inl ''No signatures found matching the expected signature for payload'')"
  by (simp add: calm_world_def)

text \<open>
  C6. When \<^verbatim>\<open>constructEvent\<close> throws (the signature does not verify against the
  configured secret), \<^verbatim>\<open>handleStripeWebhook\<close> throws an error whose message is
  \<^verbatim>\<open>Webhook Error: \<close> followed by the cause, and the database is what it was: the
  \<^verbatim>\<open>switch\<close> is never reached.
\<close>

theorem webhook_signature_rejected:
  assumes "stripe_constructEvent w body signature (or_else_str (STRIPE_WEBHOOK_SECRET w) [])
             = Inl message"
  shows "handleStripeWebhook w body signature db
           = (Inl (Error (''Webhook Error: '' @ message)), db)"
  using assms by (simp add: handleStripeWebhook_def)

theorem webhook_signature_rejected_witness:
  "stripe_constructEvent calm_world ''updated'' ''t=1,v1=forged''
       (or_else_str (STRIPE_WEBHOOK_SECRET calm_world) [])
     = Inl ''No signatures found matching the expected signature for payload''
   \<and> handleStripeWebhook calm_world ''updated'' ''t=1,v1=forged'' (db_S1 Trialing (Some 1700604800))
     = (Inl (Error ''Webhook Error: No signatures found matching the expected signature for payload''),
        db_S1 Trialing (Some 1700604800))"
proof -
  have h: "stripe_constructEvent calm_world ''updated'' ''t=1,v1=forged''
       (or_else_str (STRIPE_WEBHOOK_SECRET calm_world) [])
     = Inl ''No signatures found matching the expected signature for payload''"
    by (simp add: constructEvent_calm)
  from webhook_signature_rejected [OF h, of "db_S1 Trialing (Some 1700604800)"] h
  show ?thesis by simp
qed

text \<open>
  C7. A \<^verbatim>\<open>invoice.payment_succeeded\<close> event whose subscription reference matches no
  row of \<^verbatim>\<open>subscriptions\<close> leaves the database as it was (no payment row), whatever the
  store does, and the webhook answers \<^verbatim>\<open>{received: true}\<close> without throwing.
\<close>

theorem dangling_payment_ignored:
  assumes "\<forall>s\<in>set (subscriptions db).
             \<not> sql_eq (stripe_subscription_id s) (inv_subscription invoice)"
  shows "handlePaymentSucceeded w invoice db = db
       \<and> (stripe_constructEvent w body signature (or_else_str (STRIPE_WEBHOOK_SECRET w) [])
            = Inr (invoice_payment_succeeded invoice)
          \<longrightarrow> handleStripeWebhook w body signature db = (Inr Received, db))"
proof -
  from assms have "find (\<lambda>s. sql_eq (stripe_subscription_id s) (inv_subscription invoice))
                     (subscriptions db) = None"
    by (simp add: find_None_iff)
  then have "handlePaymentSucceeded w invoice db = db"
    by (simp add: handlePaymentSucceeded_def)
  then show ?thesis by (simp add: handleStripeWebhook_def)
qed

theorem dangling_payment_ignored_witness:
  "map stripe_subscription_id (subscriptions (db_S1 Active (Some 1700604800))) = [Some ''sub_S1'']
   \<and> inv_subscription invoice_unknown = Some ''sub_unknown''
   \<and> handleStripeWebhook calm_world ''paid_unknown'' ''t=1,v1=ok'' (db_S1 Active (Some 1700604800))
       = (Inr Received, db_S1 Active (Some 1700604800))
   \<and> payment_history (db_S1 Active (Some 1700604800)) = []"
proof -
  have h: "\<forall>s\<in>set (subscriptions (db_S1 Active (Some 1700604800))).
       \<not> sql_eq (stripe_subscription_id s) (inv_subscription invoice_unknown)"
    by (simp add: db_S1_def row_S1_def invoice_unknown_def sql_eq_def)
  have e: "stripe_constructEvent calm_world ''paid_unknown'' ''t=1,v1=ok''
             (or_else_str (STRIPE_WEBHOOK_SECRET calm_world) [])
           = Inr (invoice_payment_succeeded invoice_unknown)"
    by (simp add: constructEvent_calm secret_calm example_event_def)
  have p: "payment_history (db_S1 Active (Some 1700604800)) = []"
    by (simp add: db_S1_def empty_db_def)
  have m: "map stripe_subscription_id (subscriptions (db_S1 Active (Some 1700604800)))
             = [Some ''sub_S1'']"
    by (simp add: db_S1_def row_S1_def)
  have i: "inv_subscription invoice_unknown = Some ''sub_unknown''"
    by (simp add: invoice_unknown_def)
  from dangling_payment_ignored [OF h, of calm_world "''paid_unknown''" "''t=1,v1=ok''"] e
  have "handleStripeWebhook calm_world ''paid_unknown'' ''t=1,v1=ok'' (db_S1 Active (Some 1700604800))
       = (Inr Received, db_S1 Active (Some 1700604800))"
    by blast
  with m i p show ?thesis by simp
qed

text \<open>
  C8. For a row that is not \<^verbatim>\<open>canceled\<close> and carries the event's subscription
  reference, a \<^verbatim>\<open>customer.subscription.updated\<close> event whose \<^verbatim>\<open>UPDATE\<close> the store
  accepts sets \<^verbatim>\<open>status\<close>, \<^verbatim>\<open>current_period_start\<close>, \<^verbatim>\<open>current_period_end\<close> and
  \<^verbatim>\<open>cancel_at_period_end\<close> to the event's values and keeps \<^verbatim>\<open>user_id\<close>,
  \<^verbatim>\<open>plan_id\<close>, \<^verbatim>\<open>stripe_customer_id\<close>, \<^verbatim>\<open>stripe_subscription_id\<close> and
  \<^verbatim>\<open>trial_end\<close> (as well as the row's id and \<^verbatim>\<open>created_at\<close>); \<^verbatim>\<open>updated_at\<close>
  becomes the server's \<^verbatim>\<open>NOW()\<close>. No row is added or removed.
\<close>

theorem subscription_updated_frame:
  assumes "\<not> query_fails w Q_handleSubscriptionUpdated"
    and "i < length (subscriptions db)"
    and "stripe_subscription_id (subscriptions db ! i) = Some (ssub_id subscription)"
    and "status (subscriptions db ! i) \<noteq> Canceled"
  shows "length (subscriptions (handleSubscriptionUpdated w subscription db))
           = length (subscriptions db)
       \<and> (let old = subscriptions db ! i;
               new = subscriptions (handleSubscriptionUpdated w subscription db) ! i
          in status new = ssub_status subscription
           \<and> current_period_start new = Some (ssub_current_period_start subscription)
           \<and> current_period_end new = Some (ssub_current_period_end subscription)
           \<and> cancel_at_period_end new = ssub_cancel_at_period_end subscription
           \<and> user_id new = user_id old
           \<and> plan_id new = plan_id old
           \<and> stripe_customer_id new = stripe_customer_id old
           \<and> stripe_subscription_id new = stripe_subscription_id old
           \<and> trial_end new = trial_end old
           \<and> row_id new = row_id old
           \<and> created_at new = created_at old
           \<and> updated_at new = db_now w)"
  using assms
  by (simp add: handleSubscriptionUpdated_def subscriptions_update_where sql_eq_Some
        FROM_UNIXTIME_def Let_def)

lemma subs_db_S1: "subscriptions (db_S1 st pe) = [row_S1 st pe]"
  by (simp add: db_S1_def)

theorem subscription_updated_frame_witness:
  "\<not> query_fails calm_world Q_handleSubscriptionUpdated
   \<and> status (subscriptions (db_S1 PastDue (Some 1699604800)) ! 0) \<noteq> Canceled
   \<and> subscriptions (handleSubscriptionUpdated calm_world (subscription_S1 Active)
        (db_S1 PastDue (Some 1699604800)))
     = [(row_S1 Active (Some 1700604800))
          \<lparr>current_period_start := Some 1700000000, updated_at := 1700000000\<rparr>]"
proof -
  let ?db = "db_S1 PastDue (Some 1699604800)"
  have h1: "\<not> query_fails calm_world Q_handleSubscriptionUpdated"
    by (simp add: calm_world_def)
  have h2: "0 < length (subscriptions ?db)" by (simp add: subs_db_S1)
  have h3: "stripe_subscription_id (subscriptions ?db ! 0) = Some (ssub_id (subscription_S1 Active))"
    by (simp add: subs_db_S1 row_S1_def subscription_S1_def)
  have h4: "status (subscriptions ?db ! 0) \<noteq> Canceled"
    by (simp add: subs_db_S1 row_S1_def)
  let ?new = "subscriptions (handleSubscriptionUpdated calm_world (subscription_S1 Active) ?db)"
  from subscription_updated_frame [OF h1 h2 h3 h4]
  have len: "length ?new = 1"
    and f: "status (?new ! 0) = Active" "current_period_start (?new ! 0) = Some 1700000000"
      "current_period_end (?new ! 0) = Some 1700604800" "cancel_at_period_end (?new ! 0) = False"
      "user_id (?new ! 0) = ''42''" "plan_id (?new ! 0) = 1"
      "stripe_customer_id (?new ! 0) = Some ''cus_C1''"
      "stripe_subscription_id (?new ! 0) = Some ''sub_S1''"
      "trial_end (?new ! 0) = None" "row_id (?new ! 0) = 1"
      "created_at (?new ! 0) = 1699000000" "updated_at (?new ! 0) = 1700000000"
    by (simp_all add: Let_def subs_db_S1 row_S1_def subscription_S1_def calm_world_def)
  from len obtain r where r: "?new = [r]"
    by (cases ?new) auto
  with f have "r = (row_S1 Active (Some 1700604800))
          \<lparr>current_period_start := Some 1700000000, updated_at := 1700000000\<rparr>"
    by (simp add: row_S1_def)
  with r h1 h4 show ?thesis by simp
qed

lemma calm_query_fails: "query_fails calm_world q = False"
  by (simp add: calm_world_def)

lemma calm_db_now: "db_now calm_world = 1700000000"
  by (simp add: calm_world_def)

lemma storage_down_query_fails: "query_fails storage_down_world q = True"
  by (simp add: storage_down_world_def)

subsection \<open>No terminal state\<close>

text \<open>
  C1 as stated fails: no handler reads the stored status before writing. On a store
  whose only row is \<^verbatim>\<open>canceled\<close>, a \<^verbatim>\<open>customer.subscription.updated\<close> event
  reporting \<^verbatim>\<open>active\<close> makes the row \<^verbatim>\<open>active\<close>, and a \<^verbatim>\<open>invoice.payment_failed\<close>
  event makes it \<^verbatim>\<open>past_due\<close>.
\<close>

theorem canceled_overwritten_counterexample:
  "map status (subscriptions (db_S1 Canceled (Some 1700604800))) = [Canceled]
   \<and> handleStripeWebhook calm_world ''updated'' ''t=1,v1=ok'' (db_S1 Canceled (Some 1700604800))
       = (Inr Received,
          (db_S1 Active (Some 1700604800))
            \<lparr>subscriptions :=
               [(row_S1 Active (Some 1700604800))
                  \<lparr>current_period_start := Some 1700000000, updated_at := 1700000000\<rparr>]\<rparr>)
   \<and> map status (subscriptions (snd (handleStripeWebhook calm_world ''failed'' ''t=1,v1=ok''
         (db_S1 Canceled (Some 1700604800))))) = [PastDue]"
  by (simp add: handleStripeWebhook_def constructEvent_calm secret_calm example_event_def
        handleSubscriptionUpdated_def handlePaymentFailed_def calm_query_fails calm_db_now
        update_where_stripe_subscription_id_def db_S1_def row_S1_def subscription_S1_def
        invoice_P1_def sql_eq_def FROM_UNIXTIME_def empty_db_def)

text \<open>
  C1, amended. For a \<^verbatim>\<open>canceled\<close> row carrying the event's subscription reference:
  after \<^verbatim>\<open>customer.subscription.updated\<close> its status is the event's status (so it
  stays \<^verbatim>\<open>canceled\<close> only when the event reports \<^verbatim>\<open>canceled\<close>), after
  \<^verbatim>\<open>invoice.payment_failed\<close> it is \<^verbatim>\<open>past_due\<close>; it stays \<^verbatim>\<open>canceled\<close> when the
  store rejects the \<^verbatim>\<open>UPDATE\<close>.
\<close>

theorem canceled_row_follows_event:
  assumes "i < length (subscriptions db)"
    and "status (subscriptions db ! i) = Canceled"
    and "stripe_subscription_id (subscriptions db ! i) = Some ref"
    and "ssub_id subscription = ref"
    and "inv_subscription invoice = Some ref"
  shows "status (subscriptions (handleSubscriptionUpdated w subscription db) ! i)
           = (if query_fails w Q_handleSubscriptionUpdated then Canceled
              else ssub_status subscription)
       \<and> status (subscriptions (handlePaymentFailed w invoice db) ! i)
           = (if query_fails w Q_handlePaymentFailed then Canceled else PastDue)"
  using assms
  by (simp add: handleSubscriptionUpdated_def handlePaymentFailed_def
        subscriptions_update_where sql_eq_Some)

theorem canceled_row_follows_event_witness:
  "status (subscriptions (db_S1 Canceled None) ! 0) = Canceled
   \<and> status (subscriptions (handleSubscriptionUpdated calm_world (subscription_S1 Trialing)
        (db_S1 Canceled None)) ! 0) = Trialing
   \<and> status (subscriptions (handleSubscriptionUpdated calm_world (subscription_S1 Canceled)
        (db_S1 Canceled None)) ! 0) = Canceled
   \<and> status (subscriptions (handlePaymentFailed calm_world invoice_P1
        (db_S1 Canceled None)) ! 0) = PastDue
   \<and> status (subscriptions (handlePaymentFailed storage_down_world invoice_P1
        (db_S1 Canceled None)) ! 0) = Canceled"
proof -
  let ?db = "db_S1 Canceled None"
  have h1: "0 < length (subscriptions ?db)" by (simp add: subs_db_S1)
  have h2: "status (subscriptions ?db ! 0) = Canceled" by (simp add: subs_db_S1 row_S1_def)
  have h3: "stripe_subscription_id (subscriptions ?db ! 0) = Some ''sub_S1''"
    by (simp add: subs_db_S1 row_S1_def)
  have h4: "ssub_id (subscription_S1 st) = ''sub_S1''" for st
    by (simp add: subscription_S1_def)
  have h5: "inv_subscription invoice_P1 = Some ''sub_S1''" by (simp add: invoice_P1_def)
  have s: "ssub_status (subscription_S1 st) = st" for st
    by (simp add: subscription_S1_def)
  from canceled_row_follows_event
         [where subscription = "subscription_S1 Trialing" and w = calm_world, OF h1 h2 h3 h4 h5]
       canceled_row_follows_event
         [where subscription = "subscription_S1 Canceled" and w = calm_world, OF h1 h2 h3 h4 h5]
       canceled_row_follows_event
         [where subscription = "subscription_S1 Canceled" and w = storage_down_world,
          OF h1 h2 h3 h4 h5]
    h2 s
  show ?thesis by (simp add: calm_query_fails storage_down_query_fails)
qed

subsection \<open>Storage errors\<close>

text \<open>
  C4 as stated fails: with a store that rejects every statement, a verified
  \<^verbatim>\<open>customer.subscription.updated\<close> delivery is answered \<^verbatim>\<open>{received: true}\<close>, not
  with a failure.
\<close>

theorem storage_error_swallowed_counterexample:
  "query_fails storage_down_world Q_handleSubscriptionUpdated
   \<and> handleStripeWebhook storage_down_world ''updated'' ''t=1,v1=ok'' (db_S1 Trialing None)
       = (Inr Received, db_S1 Trialing None)"
  by (simp add: handleStripeWebhook_def storage_down_world_def calm_world_def or_else_str_def
        example_event_def handleSubscriptionUpdated_def)

text \<open>
  C4, amended. For every verified event whose persisting statement is rejected by the
  store, the database is left as it was, and the handler's \<^verbatim>\<open>catch\<close> absorbs the
  error: \<^verbatim>\<open>handleStripeWebhook\<close> returns \<^verbatim>\<open>{received: true}\<close>.
\<close>

theorem storage_error_swallowed:
  assumes "stripe_constructEvent w body signature (or_else_str (STRIPE_WEBHOOK_SECRET w) [])
             = Inr event"
    and "persistence_site event = Some q"
    and "query_fails w q"
  shows "handleStripeWebhook w body signature db = (Inr Received, db)"
proof -
  have "switch_event_type w event db = db"
  proof (cases event)
    case (checkout_session_completed session)
    with assms show ?thesis
      by (simp add: handleCheckoutCompleted_def split: option.splits)
  next
    case (customer_subscription_updated s)
    with assms show ?thesis by (simp add: handleSubscriptionUpdated_def)
  next
    case (customer_subscription_deleted s)
    with assms show ?thesis by (simp add: handleSubscriptionCanceled_def)
  next
    case (invoice_payment_succeeded invoice)
    with assms show ?thesis
      by (simp add: handlePaymentSucceeded_def split: option.splits)
  next
    case (invoice_payment_failed invoice)
    with assms show ?thesis by (simp add: handlePaymentFailed_def)
  next
    case (unhandled_event t)
    then show ?thesis by simp
  qed
  with assms(1) show ?thesis by (simp add: handleStripeWebhook_def)
qed

theorem storage_error_swallowed_witness:
  "persistence_site (example_event ''paid'') = Some Q_handlePaymentSucceeded_insert
   \<and> query_fails storage_down_world Q_handlePaymentSucceeded_insert
   \<and> handleStripeWebhook storage_down_world ''paid'' ''t=1,v1=ok'' (db_S1 Active None)
       = (Inr Received, db_S1 Active None)"
proof -
  have e: "stripe_constructEvent storage_down_world ''paid'' ''t=1,v1=ok''
             (or_else_str (STRIPE_WEBHOOK_SECRET storage_down_world) []) = Inr (example_event ''paid'')"
    by (simp add: storage_down_world_def calm_world_def or_else_str_def)
  have p: "persistence_site (example_event ''paid'') = Some Q_handlePaymentSucceeded_insert"
    by (simp add: example_event_def)
  have f: "query_fails storage_down_world Q_handlePaymentSucceeded_insert"
    by (simp add: storage_down_world_def)
  from storage_error_swallowed [OF e p f, of "db_S1 Active None"] p f show ?thesis by simp
qed

subsection \<open>Repeated deliveries\<close>

lemma calm_retrieve:
  "stripe_subscriptions_retrieve calm_world i =
     (if i = ''sub_S1'' then Some (subscription_S1 Trialing) else None)"
  by (simp add: calm_world_def)

text \<open>
  C2 as stated fails: \<^verbatim>\<open>handleCheckoutCompleted\<close> inserts without looking for an
  existing row, and \<^verbatim>\<open>stripe_subscription_id\<close> has no unique key. Delivering the
  checkout of \<^verbatim>\<open>sub_S1\<close> to a store that already holds its row yields two rows
  with that reference.
\<close>

theorem checkout_completed_duplicate_counterexample:
  "map stripe_subscription_id (subscriptions (db_S1 Trialing (Some 1700604800)))
     = [Some ''sub_S1'']
   \<and> fst (handleStripeWebhook calm_world ''checkout'' ''t=1,v1=ok'' (db_S1 Trialing (Some 1700604800)))
     = Inr Received
   \<and> map stripe_subscription_id
       (subscriptions (snd (handleStripeWebhook calm_world ''checkout'' ''t=1,v1=ok''
          (db_S1 Trialing (Some 1700604800)))))
     = [Some ''sub_S1'', Some ''sub_S1'']
   \<and> map row_id
       (subscriptions (snd (handleStripeWebhook calm_world ''checkout'' ''t=1,v1=ok''
          (db_S1 Trialing (Some 1700604800)))))
     = [1, 2]"
  by (simp add: handleStripeWebhook_def constructEvent_calm secret_calm example_event_def
        handleCheckoutCompleted_def checkout_S1_def calm_retrieve calm_query_fails
        insert_subscription_def db_S1_def row_S1_def)

text \<open>
  C2, amended. When a row already exists for the session's subscription reference, the
  session names a user and a subscription, Stripe returns the subscription and the
  store accepts the \<^verbatim>\<open>INSERT\<close>, the event appends one more row for that reference,
  built from the event, under the next id; the rows already stored, the payment
  history and the plans are left exactly as they were.
\<close>

theorem checkout_completed_appends:
  assumes "metadata_userId session = Some userId" and "userId \<noteq> []"
    and "session_subscription session = Some ref" and "ref \<noteq> []"
    and "stripe_subscriptions_retrieve w ref = Some subscription"
    and "\<not> query_fails w Q_handleCheckoutCompleted"
    and "\<exists>s\<in>set (subscriptions db). stripe_subscription_id s = Some ref"
  shows "\<exists>new.
           subscriptions (handleCheckoutCompleted w session db) = subscriptions db @ [new]
         \<and> row_id new = subscriptions_auto_increment db
         \<and> user_id new = userId
         \<and> stripe_customer_id new = session_customer session
         \<and> stripe_subscription_id new = Some ref
         \<and> status new = ssub_status subscription
         \<and> current_period_start new = Some (ssub_current_period_start subscription)
         \<and> current_period_end new = Some (ssub_current_period_end subscription)
         \<and> 2 \<le> length (filter (\<lambda>s. stripe_subscription_id s = Some ref)
                  (subscriptions (handleCheckoutCompleted w session db)))
         \<and> payment_history (handleCheckoutCompleted w session db) = payment_history db
         \<and> subscription_plans (handleCheckoutCompleted w session db) = subscription_plans db"
proof -
  from assms(7) have "filter (\<lambda>s. stripe_subscription_id s = Some ref) (subscriptions db) \<noteq> []"
    by (simp add: filter_empty_conv)
  then have "1 \<le> length (filter (\<lambda>s. stripe_subscription_id s = Some ref) (subscriptions db))"
    by (cases "filter (\<lambda>s. stripe_subscription_id s = Some ref) (subscriptions db)") simp_all
  with assms(1-6) show ?thesis
    by (simp add: handleCheckoutCompleted_def insert_subscription_def FROM_UNIXTIME_def)
qed

theorem checkout_completed_appends_witness:
  "map user_id (subscriptions (db_S1 Active (Some 1700604800))) = [''42'']
   \<and> map stripe_subscription_id (subscriptions (db_S1 Active (Some 1700604800))) = [Some ''sub_S1'']
   \<and> length (subscriptions (handleCheckoutCompleted calm_world checkout_S1
        (db_S1 Active (Some 1700604800)))) = 2
   \<and> take 1 (subscriptions (handleCheckoutCompleted calm_world checkout_S1
        (db_S1 Active (Some 1700604800)))) = [row_S1 Active (Some 1700604800)]"
proof -
  let ?db = "db_S1 Active (Some 1700604800)"
  have h: "metadata_userId checkout_S1 = Some ''42''" "''42'' \<noteq> []"
    "session_subscription checkout_S1 = Some ''sub_S1''" "''sub_S1'' \<noteq> []"
    "stripe_subscriptions_retrieve calm_world ''sub_S1'' = Some (subscription_S1 Trialing)"
    "\<not> query_fails calm_world Q_handleCheckoutCompleted"
    "\<exists>s\<in>set (subscriptions ?db). stripe_subscription_id s = Some ''sub_S1''"
    by (simp_all add: checkout_S1_def calm_retrieve calm_query_fails subs_db_S1 row_S1_def)
  from checkout_completed_appends [OF h]
  obtain new where "subscriptions (handleCheckoutCompleted calm_world checkout_S1 ?db)
                      = subscriptions ?db @ [new]"
    by blast
  then show ?thesis by (simp add: subs_db_S1 row_S1_def)
qed

lemma handlePaymentSucceeded_subscriptions:
  "subscriptions (handlePaymentSucceeded w invoice db) = subscriptions db"
  by (simp add: handlePaymentSucceeded_def insert_payment_def Let_def split: option.splits)

lemma handlePaymentSucceeded_appends:
  assumes "\<not> query_fails w Q_handlePaymentSucceeded_select"
    and "\<not> query_fails w Q_handlePaymentSucceeded_insert"
    and "\<exists>s\<in>set (subscriptions db). sql_eq (stripe_subscription_id s) (inv_subscription invoice)"
  shows "\<exists>row. payment_history (handlePaymentSucceeded w invoice db) = payment_history db @ [row]
           \<and> stripe_payment_intent_id row = inv_payment_intent invoice
           \<and> pay_status row = Succeeded"
proof -
  from assms(3) have "find (\<lambda>s. sql_eq (stripe_subscription_id s) (inv_subscription invoice))
                        (subscriptions db) \<noteq> None"
    by (auto simp: find_None_iff)
  then obtain r where "find (\<lambda>s. sql_eq (stripe_subscription_id s) (inv_subscription invoice))
                         (subscriptions db) = Some r"
    by blast
  with assms(1,2) show ?thesis
    by (simp add: handlePaymentSucceeded_def insert_payment_def)
qed

text \<open>
  C3 as stated fails: \<^verbatim>\<open>stripe_payment_intent_id\<close> has no unique key and
  \<^verbatim>\<open>handlePaymentSucceeded\<close> does not look for an existing payment. Delivering the
  same paid invoice twice leaves two payment rows with its reference.
\<close>

theorem payment_succeeded_duplicate_counterexample:
  "handleStripeWebhook calm_world ''paid'' ''t=1,v1=ok'' (db_S1 Active (Some 1700604800))
     = (Inr Received, apply_events calm_world [invoice_payment_succeeded invoice_P1]
          (db_S1 Active (Some 1700604800)))
   \<and> map stripe_payment_intent_id
       (payments_with_ref (Some ''pi_P1'')
          (apply_events calm_world
             [invoice_payment_succeeded invoice_P1, invoice_payment_succeeded invoice_P1]
             (db_S1 Active (Some 1700604800))))
     = [Some ''pi_P1'', Some ''pi_P1'']
   \<and> map pay_id
       (payments_with_ref (Some ''pi_P1'')
          (apply_events calm_world
             [invoice_payment_succeeded invoice_P1, invoice_payment_succeeded invoice_P1]
             (db_S1 Active (Some 1700604800))))
     = [1, 2]"
  by (simp add: handleStripeWebhook_def constructEvent_calm secret_calm example_event_def
        handlePaymentSucceeded_def calm_query_fails insert_payment_def payments_with_ref_def
        db_S1_def row_S1_def empty_db_def invoice_P1_def sql_eq_def)

text \<open>
  C3, amended. With a store that accepts the statements, every
  \<^verbatim>\<open>invoice.payment_succeeded\<close> event whose subscription is known appends one payment
  row: after a sequence of such events sharing a payment reference, the number of rows
  with that reference has grown by the length of the sequence. Nothing is thrown, the
  handlers being total.
\<close>

theorem payment_succeeded_appends_each:
  assumes "\<not> query_fails w Q_handlePaymentSucceeded_select"
    and "\<not> query_fails w Q_handlePaymentSucceeded_insert"
    and "\<forall>invoice\<in>set invoices. inv_payment_intent invoice = p \<and>
           (\<exists>s\<in>set (subscriptions db).
              sql_eq (stripe_subscription_id s) (inv_subscription invoice))"
  shows "length (payments_with_ref p
           (apply_events w (map invoice_payment_succeeded invoices) db))
         = length (payments_with_ref p db) + length invoices"
  using assms(3)
proof (induction invoices arbitrary: db)
  case Nil
  then show ?case by simp
next
  case (Cons invoice invoices)
  let ?db' = "handlePaymentSucceeded w invoice db"
  from Cons.prems have own: "inv_payment_intent invoice = p"
    and ex: "\<exists>s\<in>set (subscriptions db). sql_eq (stripe_subscription_id s) (inv_subscription invoice)"
    by simp_all
  from handlePaymentSucceeded_appends [OF assms(1,2) ex] own
  have step: "length (payments_with_ref p ?db') = Suc (length (payments_with_ref p db))"
    by (auto simp: payments_with_ref_def)
  from Cons.prems
  have "\<forall>i\<in>set invoices. inv_payment_intent i = p \<and>
           (\<exists>s\<in>set (subscriptions ?db'). sql_eq (stripe_subscription_id s) (inv_subscription i))"
    by (simp add: handlePaymentSucceeded_subscriptions)
  from Cons.IH [OF this] step show ?case by simp
qed

theorem payment_succeeded_appends_each_witness:
  "payments_with_ref (Some ''pi_P1'') (db_S1 Active (Some 1700604800)) = []
   \<and> length (payments_with_ref (Some ''pi_P1'')
        (apply_events calm_world
           (map invoice_payment_succeeded [invoice_P1, invoice_P1, invoice_P1])
           (db_S1 Active (Some 1700604800)))) = 3"
proof -
  let ?db = "db_S1 Active (Some 1700604800)"
  have q: "\<not> query_fails calm_world Q_handlePaymentSucceeded_select"
    "\<not> query_fails calm_world Q_handlePaymentSucceeded_insert"
    by (simp_all add: calm_query_fails)
  have h: "\<forall>invoice\<in>set [invoice_P1, invoice_P1, invoice_P1].
             inv_payment_intent invoice = Some ''pi_P1'' \<and>
             (\<exists>s\<in>set (subscriptions ?db).
                sql_eq (stripe_subscription_id s) (inv_subscription invoice))"
    by (simp add: invoice_P1_def subs_db_S1 row_S1_def sql_eq_def)
  have e: "payments_with_ref (Some ''pi_P1'') ?db = []"
    by (simp add: payments_with_ref_def db_S1_def empty_db_def)
  from payment_succeeded_appends_each [OF q h] e show ?thesis by simp
qed

subsection \<open>User commands\<close>

lemma requireAuth_Some: "u \<noteq> [] \<Longrightarrow> requireAuth (Some u) = Inr u"
  by (simp add: requireAuth_def)

lemma status_customer_ref:
  "(case stripeCustomerId (getSubscriptionStatus w db u) of
      None \<Rightarrow> None | Some c \<Rightarrow> if c = [] then None else Some c)
   = (if query_fails w Q_getSubscriptionStatus then None else provider_customer_ref db u)"
  by (simp add: getSubscriptionStatus_def status_without_row_def provider_customer_ref_def
        split: option.splits)

lemma status_subscription_ref:
  "(case stripeSubscriptionId (getSubscriptionStatus w db u) of
      None \<Rightarrow> None | Some c \<Rightarrow> if c = [] then None else Some c)
   = (if query_fails w Q_getSubscriptionStatus then None else provider_subscription_ref db u)"
  by (simp add: getSubscriptionStatus_def status_without_row_def provider_subscription_ref_def
        split: option.splits)

lemma createPortal_outcome:
  assumes "u \<noteq> []"
  shows "createPortal w (Some u) db =
     (case (if query_fails w Q_getSubscriptionStatus then None else provider_customer_ref db u) of
        None \<Rightarrow> (Inl NOT_FOUND, db)
      | Some c \<Rightarrow> (createPortalSession w c, db))"
  unfolding status_customer_ref [symmetric]
  using assms by (simp add: createPortal_def requireAuth_Some split: option.splits)

lemma cancel_outcome:
  assumes "u \<noteq> []"
  shows "cancel w (Some u) db =
     (case (if query_fails w Q_getSubscriptionStatus then None else provider_subscription_ref db u) of
        None \<Rightarrow> (Inl NOT_FOUND, db)
      | Some c \<Rightarrow> cancelSubscription w c db)"
  unfolding status_subscription_ref [symmetric]
  using assms by (simp add: cancel_def requireAuth_Some split: option.splits)

lemma reactivate_outcome:
  assumes "u \<noteq> []"
  shows "reactivate w (Some u) db =
     (case (if query_fails w Q_getSubscriptionStatus then None else provider_subscription_ref db u) of
        None \<Rightarrow> (Inl NOT_FOUND, db)
      | Some c \<Rightarrow> reactivateSubscription w c db)"
  unfolding status_subscription_ref [symmetric]
  using assms by (simp add: reactivate_def requireAuth_Some split: option.splits)

lemma refs_db_S1:
  "provider_customer_ref (db_S1 st pe) ''42'' = Some ''cus_C1''"
  "provider_subscription_ref (db_S1 st pe) ''42'' = Some ''sub_S1''"
  by (simp_all add: provider_customer_ref_def provider_subscription_ref_def most_recent_db_S1
        row_S1_def)

lemma stripe_down_fields:
  "query_fails stripe_down_world q = False"
  "stripe_subscriptions_update stripe_down_world i flag = False"
  "stripe_billingPortal_create stripe_down_world c = None"
  by (simp_all add: stripe_down_world_def calm_world_def)

text \<open>
  C9 as stated fails in its last part: user 42 has both provider references, yet with
  Stripe unreachable each of the three commands fails with
  \<^verbatim>\<open>INTERNAL_SERVER_ERROR\<close> instead of returning success.
\<close>

theorem commands_provider_failure_counterexample:
  "provider_customer_ref (db_S1 Active (Some 1700604800)) ''42'' = Some ''cus_C1''
   \<and> provider_subscription_ref (db_S1 Active (Some 1700604800)) ''42'' = Some ''sub_S1''
   \<and> createPortal stripe_down_world (Some ''42'') (db_S1 Active (Some 1700604800))
       = (Inl INTERNAL_SERVER_ERROR, db_S1 Active (Some 1700604800))
   \<and> cancel stripe_down_world (Some ''42'') (db_S1 Active (Some 1700604800))
       = (Inl INTERNAL_SERVER_ERROR, db_S1 Active (Some 1700604800))
   \<and> reactivate stripe_down_world (Some ''42'') (db_S1 Active (Some 1700604800))
       = (Inl INTERNAL_SERVER_ERROR, db_S1 Active (Some 1700604800))"
  by (simp add: createPortal_outcome cancel_outcome reactivate_outcome refs_db_S1
        stripe_down_fields createPortalSession_def cancelSubscription_def
        reactivateSubscription_def)

text \<open>
  C9, amended. For an authenticated user: \<^verbatim>\<open>createPortal\<close> fails with
  \<^verbatim>\<open>NOT_FOUND\<close> when the most recent subscription row gives no customer reference,
  \<^verbatim>\<open>cancel\<close> and \<^verbatim>\<open>reactivate\<close> fail with \<^verbatim>\<open>NOT_FOUND\<close> when it gives no
  subscription reference, and all three do when the status query is rejected. Otherwise
  each returns success if the Stripe call (and, for \<^verbatim>\<open>cancel\<close> and \<^verbatim>\<open>reactivate\<close>,
  the local \<^verbatim>\<open>UPDATE\<close>) succeeds, and fails with \<^verbatim>\<open>INTERNAL_SERVER_ERROR\<close>, the
  database unchanged, if it does not.
\<close>

theorem commands_outcome:
  assumes "userId = Some u" and "u \<noteq> []"
  shows "(provider_customer_ref db u = None \<longrightarrow>
            createPortal w userId db = (Inl NOT_FOUND, db))
       \<and> (provider_subscription_ref db u = None \<longrightarrow>
            cancel w userId db = (Inl NOT_FOUND, db)
          \<and> reactivate w userId db = (Inl NOT_FOUND, db))
       \<and> (query_fails w Q_getSubscriptionStatus \<longrightarrow>
            createPortal w userId db = (Inl NOT_FOUND, db)
          \<and> cancel w userId db = (Inl NOT_FOUND, db)
          \<and> reactivate w userId db = (Inl NOT_FOUND, db))
       \<and> (\<forall>c. \<not> query_fails w Q_getSubscriptionStatus \<and> provider_customer_ref db u = Some c \<longrightarrow>
            createPortal w userId db =
              (case stripe_billingPortal_create w c of
                 None \<Rightarrow> (Inl INTERNAL_SERVER_ERROR, db)
               | Some url \<Rightarrow> (Inr url, db)))
       \<and> (\<forall>c. \<not> query_fails w Q_getSubscriptionStatus \<and> provider_subscription_ref db u = Some c \<longrightarrow>
            cancel w userId db =
              (if stripe_subscriptions_update w c True \<and> \<not> query_fails w Q_cancelSubscription
               then (Inr Success,
                     update_where_stripe_subscription_id (Some c)
                       (\<lambda>s. s\<lparr>cancel_at_period_end := True, updated_at := db_now w\<rparr>) db)
               else (Inl INTERNAL_SERVER_ERROR, db))
          \<and> reactivate w userId db =
              (if stripe_subscriptions_update w c False \<and> \<not> query_fails w Q_reactivateSubscription
               then (Inr Success,
                     update_where_stripe_subscription_id (Some c)
                       (\<lambda>s. s\<lparr>cancel_at_period_end := False, updated_at := db_now w\<rparr>) db)
               else (Inl INTERNAL_SERVER_ERROR, db)))"
  using assms
  by (simp add: createPortal_outcome cancel_outcome reactivate_outcome createPortalSession_def
        cancelSubscription_def reactivateSubscription_def split: option.splits)

theorem commands_outcome_witness:
  "createPortal calm_world (Some ''42'') empty_db = (Inl NOT_FOUND, empty_db)
   \<and> cancel calm_world (Some ''42'') empty_db = (Inl NOT_FOUND, empty_db)
   \<and> reactivate calm_world (Some ''42'') empty_db = (Inl NOT_FOUND, empty_db)
   \<and> createPortal calm_world (Some ''42'') (db_S1 Active None)
       = (Inr ''https://billing.stripe.com/p/session/1'', db_S1 Active None)
   \<and> fst (cancel calm_world (Some ''42'') (db_S1 Active None)) = Inr Success
   \<and> map cancel_at_period_end
       (subscriptions (snd (cancel calm_world (Some ''42'') (db_S1 Active None)))) = [True]
   \<and> fst (reactivate calm_world (Some ''42'') (db_S1 Active None)) = Inr Success"
proof -
  have u: "Some ''42'' = Some ''42''" "''42'' \<noteq> []" by simp_all
  have none: "provider_customer_ref empty_db ''42'' = None"
    "provider_subscription_ref empty_db ''42'' = None"
    by (simp_all add: provider_customer_ref_def provider_subscription_ref_def
          most_recent_subscription_def empty_db_def)
  have calm: "\<not> query_fails calm_world q" "stripe_subscriptions_update calm_world i flag"
    "stripe_billingPortal_create calm_world c = Some ''https://billing.stripe.com/p/session/1''"
    for q i flag c
    by (simp_all add: calm_world_def)
  from commands_outcome [OF u, of empty_db calm_world] none
  have a: "createPortal calm_world (Some ''42'') empty_db = (Inl NOT_FOUND, empty_db)"
    "cancel calm_world (Some ''42'') empty_db = (Inl NOT_FOUND, empty_db)"
    "reactivate calm_world (Some ''42'') empty_db = (Inl NOT_FOUND, empty_db)"
    by simp_all
  from commands_outcome [OF u, of "db_S1 Active None" calm_world] refs_db_S1 [of Active None] calm
  have b: "createPortal calm_world (Some ''42'') (db_S1 Active None)
             = (Inr ''https://billing.stripe.com/p/session/1'', db_S1 Active None)"
    "cancel calm_world (Some ''42'') (db_S1 Active None)
       = (Inr Success, update_where_stripe_subscription_id (Some ''sub_S1'')
            (\<lambda>s. s\<lparr>cancel_at_period_end := True, updated_at := db_now calm_world\<rparr>)
            (db_S1 Active None))"
    "fst (reactivate calm_world (Some ''42'') (db_S1 Active None)) = Inr Success"
    by simp_all
  from b(2) have c: "map cancel_at_period_end
       (subscriptions (snd (cancel calm_world (Some ''42'') (db_S1 Active None)))) = [True]"
    by (simp add: subscriptions_update_where subs_db_S1 row_S1_def sql_eq_def)
  from a b c show ?thesis by simp
qed

end
